theory Spec2Isabelle
  imports Complex_Main
begin

section \<open>Behaviour-tree plumbing shared by both nodes\<close>

text \<open>
  \<^verbatim>\<open>BT::NodeStatus\<close> of BehaviorTree.CPP v3.
\<close>

datatype NodeStatus = IDLE | RUNNING | SUCCESS | FAILURE

text \<open>
  Input ports. A port is looked up by its literal key; \<^verbatim>\<open>getInput(key, dest)\<close> assigns
  \<^verbatim>\<open>dest\<close> when the port exists and converts to the destination's type, and leaves
  \<^verbatim>\<open>dest\<close> as it was otherwise (the error it returns is ignored by every caller in
  this repository).
\<close>

datatype port_value = PString string | PBool bool | PDouble real

type_synonym ports = "string \<rightharpoonup> port_value"

definition getInput_string :: "ports \<Rightarrow> string \<Rightarrow> string \<Rightarrow> string" where
  "getInput_string ps key dest = (case ps key of Some (PString v) \<Rightarrow> v | _ \<Rightarrow> dest)"

definition getInput_bool :: "ports \<Rightarrow> string \<Rightarrow> bool \<Rightarrow> bool" where
  "getInput_bool ps key dest = (case ps key of Some (PBool v) \<Rightarrow> v | _ \<Rightarrow> dest)"

definition getInput_double :: "ports \<Rightarrow> string \<Rightarrow> real \<Rightarrow> real" where
  "getInput_double ps key dest = (case ps key of Some (PDouble v) \<Rightarrow> v | _ \<Rightarrow> dest)"

section \<open>Messages\<close>

text \<open>
  The geometry messages, with the fields the nodes touch. A \<^verbatim>\<open>double\<close> is idealised
  as a real number. A default-constructed ROS 2 message has every number 0, except the
  quaternion's \<^verbatim>\<open>w\<close>, whose default is 1, and every string empty.
\<close>

record Point =
  pos_x :: real
  pos_y :: real
  pos_z :: real

record Quaternion =
  quat_x :: real
  quat_y :: real
  quat_z :: real
  quat_w :: real

record Pose =
  position :: Point
  orientation :: Quaternion

record PoseStamped =
  frame_id :: string
  pose :: Pose

record Transform =
  translation :: Point
  rotation :: Quaternion

definition default_Point :: Point where
  "default_Point = \<lparr>pos_x = 0, pos_y = 0, pos_z = 0\<rparr>"

definition default_Quaternion :: Quaternion where
  "default_Quaternion = \<lparr>quat_x = 0, quat_y = 0, quat_z = 0, quat_w = 1\<rparr>"

definition default_Pose :: Pose where
  "default_Pose = \<lparr>position = default_Point, orientation = default_Quaternion\<rparr>"

definition default_PoseStamped :: PoseStamped where
  "default_PoseStamped = \<lparr>frame_id = [], pose = default_Pose\<rparr>"

definition default_Transform :: Transform where
  "default_Transform = \<lparr>translation = default_Point, rotation = default_Quaternion\<rparr>"

text \<open>
  \<^verbatim>\<open>nav2_msgs::action::NavigateToPose::Goal\<close>: the pose and the behaviour tree to run.
\<close>

record NavigateToPose_Goal =
  goal_pose :: PoseStamped
  behavior_tree :: string

section \<open>NavigateTo\<close>

text \<open>
  What the collaborators answer during one call of \<^verbatim>\<open>on_tick\<close>:
  \<^item> \<open>lookupTransform target source\<close> is \<^verbatim>\<open>tf_buffer_.lookupTransform\<close>; \<open>None\<close> is a
    thrown \<^verbatim>\<open>tf2::TransformException\<close>;
  \<^item> \<open>wait_for_service\<close> is the answer of
    \<^verbatim>\<open>set_truncate_distance_client_->wait_for_service(1s)\<close>;
  \<^item> \<open>nav_to_pose_truncated_xml\<close> is the template constant and \<open>instantiate\<close> the
    template instantiation behind \<^verbatim>\<open>generate_xml_file\<close>;
  \<^item> \<open>indeterminate_bool\<close> and \<open>indeterminate_double\<close> are what the locals
    \<^verbatim>\<open>is_truncated\<close> and \<^verbatim>\<open>distance_tolerance\<close>, declared without an initialiser,
    hold when their port is absent.
\<close>

record nav_env =
  lookupTransform :: "string \<Rightarrow> string \<Rightarrow> Transform option"
  wait_for_service :: bool
  nav_to_pose_truncated_xml :: string
  instantiate :: "string \<Rightarrow> real \<Rightarrow> string"
  indeterminate_bool :: bool
  indeterminate_double :: real

text \<open>
  Modelled from the spec: \<^verbatim>\<open>generate_xml_file\<close> is declared outside the given sources.
  The spec describes it as a deterministic template instantiation keyed only by the
  tolerance value, whose result is the reference attached to the goal.
\<close>

definition generate_xml_file :: "nav_env \<Rightarrow> string \<Rightarrow> real \<Rightarrow> string" where
  "generate_xml_file env template distance_tolerance = instantiate env template distance_tolerance"

text \<open>
  The members of the node that the callbacks read and write, \<open>m_goal\<close> for the member
  \<^verbatim>\<open>goal_\<close> and so on. \<open>m_status\<close> is what
  \<^verbatim>\<open>setStatus\<close> stores; \<open>new_goals\<close> records each call of
  \<^verbatim>\<open>on_new_goal_received\<close> with the goal it announces.
\<close>

record NavigateTo =
  m_status :: NodeStatus
  m_will_finish :: bool
  m_goal_updated :: bool
  m_goal :: NavigateToPose_Goal
  new_goals :: "NavigateToPose_Goal list"

definition setStatus :: "NodeStatus \<Rightarrow> NavigateTo \<Rightarrow> NavigateTo" where
  "setStatus st s = s\<lparr>m_status := st\<rparr>"

text \<open>
  Modelled from the spec: \<^verbatim>\<open>on_new_goal_received\<close> belongs to the base class
  \<^verbatim>\<open>motion::BtActionNode\<close>, outside the given sources. The spec describes it as
  notifying the action client that a new goal is available; the model records the
  announced goal.
\<close>

definition on_new_goal_received :: "NavigateTo \<Rightarrow> NavigateTo" where
  "on_new_goal_received s = s\<lparr>new_goals := new_goals s @ [m_goal s]\<rparr>"

text \<open>
  Lines 51-78 of \<^verbatim>\<open>NavigateTo.cpp\<close>: the local \<^verbatim>\<open>goal\<close> after the frame/coordinates
  branch, with the node after it. The \<^verbatim>\<open>catch\<close> block only logs and calls
  \<^verbatim>\<open>setStatus\<close>; control then reaches the assignments from \<^verbatim>\<open>map_to_goal\<close>, which
  is still default-constructed there.
\<close>

definition resolve_pose :: "nav_env \<Rightarrow> ports \<Rightarrow> string \<Rightarrow> NavigateTo \<Rightarrow> PoseStamped \<times> NavigateTo" where
  "resolve_pose env ps tf_frame s =
     (let goal = default_PoseStamped in
      if length tf_frame > 0 then
        (let (map_to_goal, s') =
               (case lookupTransform env ''map'' tf_frame of
                  Some t \<Rightarrow> (t, s)
                | None \<Rightarrow> (default_Transform, setStatus RUNNING s))
         in (goal\<lparr>pose := (pose goal)
               \<lparr>position := (position (pose goal))
                  \<lparr>pos_x := pos_x (translation map_to_goal),
                   pos_y := pos_y (translation map_to_goal)\<rparr>,
                orientation :=
                  \<lparr>quat_x = quat_x (rotation map_to_goal),
                   quat_y = quat_y (rotation map_to_goal),
                   quat_z = quat_z (rotation map_to_goal),
                   quat_w = quat_w (rotation map_to_goal)\<rparr>\<rparr>\<rparr>, s'))
      else
        (goal\<lparr>pose := (pose goal)
           \<lparr>position := (position (pose goal))
              \<lparr>pos_x := getInput_double ps ''x'' (pos_x (position (pose goal))),
               pos_y := getInput_double ps ''y'' (pos_y (position (pose goal)))\<rparr>,
            orientation := \<lparr>quat_x = 0, quat_y = 0, quat_z = 0, quat_w = 1\<rparr>\<rparr>\<rparr>, s))"

text \<open>
  \<^verbatim>\<open>NavigateTo::on_tick\<close>, statement by statement (logging left out).
\<close>

definition on_tick :: "nav_env \<Rightarrow> ports \<Rightarrow> NavigateTo \<Rightarrow> NavigateTo" where
  "on_tick env ps s =
     (let tf_frame = getInput_string ps ''tf_frame'' [];
          s1 = s\<lparr>m_will_finish := getInput_bool ps ''will_finish'' (m_will_finish s)\<rparr>;
          is_truncated = getInput_bool ps ''is_truncated'' (indeterminate_bool env);
          (goal, s2) = resolve_pose env ps tf_frame s1;
          goal' = goal\<lparr>frame_id := ''map''\<rparr>;
          s3 = (if \<not> wait_for_service env then setStatus RUNNING s2 else s2);
          s4 = (if is_truncated then
                  (let distance_tolerance =
                         getInput_double ps ''distance_tolerance'' (indeterminate_double env);
                       xml_path =
                         generate_xml_file env (nav_to_pose_truncated_xml env) distance_tolerance
                   in s3\<lparr>m_goal := (m_goal s3)\<lparr>behavior_tree := xml_path\<rparr>\<rparr>)
                else s3)
      in s4\<lparr>m_goal := (m_goal s4)\<lparr>goal_pose := goal'\<rparr>\<rparr>)"

definition on_success :: "nav_env \<Rightarrow> ports \<Rightarrow> NavigateTo \<Rightarrow> NodeStatus \<times> NavigateTo" where
  "on_success env ps s =
     (if m_will_finish s then (SUCCESS, s)
      else (let s1 = s\<lparr>m_goal_updated := True\<rparr>;
                s2 = on_tick env ps s1;
                s3 = on_new_goal_received s2
            in (RUNNING, s3)))"

definition on_aborted :: "nav_env \<Rightarrow> ports \<Rightarrow> NavigateTo \<Rightarrow> NodeStatus \<times> NavigateTo" where
  "on_aborted env ps s =
     (if m_will_finish s then (FAILURE, s)
      else (let s1 = on_tick env ps s;
                s2 = on_new_goal_received s1
            in (RUNNING, s2)))"

definition on_cancelled :: "nav_env \<Rightarrow> ports \<Rightarrow> NavigateTo \<Rightarrow> NodeStatus \<times> NavigateTo" where
  "on_cancelled env ps s =
     (if m_will_finish s then (SUCCESS, s)
      else (let s1 = on_tick env ps s;
                s2 = on_new_goal_received s1
            in (RUNNING, s2)))"

text \<open>
  The terminal outcomes the action client delivers, and the callback each one runs.
\<close>

datatype outcome = Succeeded | Aborted | Cancelled

fun on_outcome :: "outcome \<Rightarrow> nav_env \<Rightarrow> ports \<Rightarrow> NavigateTo \<Rightarrow> NodeStatus \<times> NavigateTo" where
  "on_outcome Succeeded env ps s = on_success env ps s"
| "on_outcome Aborted env ps s = on_aborted env ps s"
| "on_outcome Cancelled env ps s = on_cancelled env ps s"

section \<open>IsInFront\<close>

text \<open>
  \<^verbatim>\<open>perception_system_interfaces::msg::Detection\<close>, with the fields that tell two
  detections apart and the 3D centre the gate reads.
\<close>

record Detection =
  class_name :: string
  score :: real
  center3d :: Pose

definition default_Detection :: Detection where
  "default_Detection = \<lparr>class_name = [], score = 0, center3d = default_Pose\<rparr>"

text \<open>
  What the collaborators answer during one tick: the blackboard entries holding detections,
  and \<^verbatim>\<open>PerceptionListener::get_by_features\<close>.
\<close>

record perception_env =
  blackboard :: "string \<rightharpoonup> Detection"
  get_by_features :: "Detection \<Rightarrow> real \<Rightarrow> Detection list"

text \<open>
  The members of the node, \<open>m_target\<close> for \<^verbatim>\<open>target_\<close> and so on; \<open>activations\<close> are
  the activations added to \<^verbatim>\<open>node_\<close>.
\<close>

record IsInFront =
  m_target :: string
  m_confidence :: real
  m_entity :: string
  activations :: "string list"

text \<open>
  The constructor. \<open>confidence0\<close> is the value the member \<^verbatim>\<open>confidence_\<close> holds before
  the constructor's body runs (its declaration is in the header).
\<close>

definition IsInFront_ctor :: "ports \<Rightarrow> real \<Rightarrow> IsInFront" where
  "IsInFront_ctor ps confidence0 =
     (let what = getInput_string ps ''what'' [];
          n = \<lparr>m_target = getInput_string ps ''target'' [],
               m_confidence = getInput_double ps ''conficende'' confidence0,
               m_entity = getInput_string ps ''entity_to_identify'' [],
               activations = []\<rparr>
      in if what = ''person'' then
           n\<lparr>activations := activations n @ [''perception_system/perception_people_detection'']\<rparr>
         else if what = ''object'' then
           n\<lparr>activations := activations n @ [''perception_system/perception_object_detection'']\<rparr>
         else
           n\<lparr>activations := activations n @ [''perception_system/perception_object_detection'']\<rparr>)"

text \<open>
  \<^verbatim>\<open>atan2\<close> of the C library on real numbers (signed zeros and NaN have no counterpart
  here), and the bearing in degrees as lines 66-67 compute it.
\<close>

definition atan2 :: "real \<Rightarrow> real \<Rightarrow> real" where
  "atan2 y x =
     (if 0 < x then arctan (y / x)
      else if x < 0 \<and> 0 \<le> y then arctan (y / x) + pi
      else if x < 0 \<and> y < 0 then arctan (y / x) - pi
      else if 0 < y then pi / 2
      else if y < 0 then - (pi / 2)
      else 0)"

definition yaw_degrees :: "Detection \<Rightarrow> real" where
  "yaw_degrees detection =
     (let yaw = atan2 (pos_y (position (center3d detection))) (pos_x (position (center3d detection)))
      in yaw * 180 / pi)"

text \<open>
  What a tick does besides returning: writes to output ports and calls of
  \<^verbatim>\<open>publishTF\<close>, in the order they happen.
\<close>

datatype effect = SetOutput string int | PublishTF Detection string

fun direction_writes :: "effect list \<Rightarrow> int list" where
  "direction_writes [] = []"
| "direction_writes (SetOutput key v # es) =
     (if key = ''direction'' then v # direction_writes es else direction_writes es)"
| "direction_writes (PublishTF d e # es) = direction_writes es"

text \<open>
  \<^verbatim>\<open>IsInFront::tick\<close>. \<^verbatim>\<open>blackboard->get(target_, detection)\<close> leaves the
  default-constructed \<^verbatim>\<open>detection\<close> as it is when the entry is absent.
\<close>

definition tick :: "perception_env \<Rightarrow> IsInFront \<Rightarrow> NodeStatus \<times> effect list" where
  "tick env n =
     (let detection = (case blackboard env (m_target n) of Some d \<Rightarrow> d | None \<Rightarrow> default_Detection);
          detections = get_by_features env detection (m_confidence n)
      in case detections of
           [] \<Rightarrow> (FAILURE, [SetOutput ''direction'' (- 1)])
         | detection' # _ \<Rightarrow>
             (let yaw = yaw_degrees detection' in
              if \<bar>yaw\<bar> > 5.0 then
                (if yaw > 0 then (FAILURE, [SetOutput ''direction'' 1])
                 else (FAILURE, [SetOutput ''direction'' (- 1)]))
              else (SUCCESS, [PublishTF detection' (m_entity n), SetOutput ''direction'' 0])))"

section \<open>Example configurations\<close>

definition pose_at :: "real \<Rightarrow> real \<Rightarrow> PoseStamped" where
  "pose_at x y = \<lparr>frame_id = ''map'',
       pose = \<lparr>position = \<lparr>pos_x = x, pos_y = y, pos_z = 0\<rparr>, orientation = default_Quaternion\<rparr>\<rparr>"

text \<open>
  A transform cache that knows no frame, a truncation service that is up or not, and a
  template instantiation that names the file after the tolerance.
\<close>

definition env_example :: "bool \<Rightarrow> nav_env" where
  "env_example ready = \<lparr>lookupTransform = (\<lambda>target source. None), wait_for_service = ready,
       nav_to_pose_truncated_xml = ''nav_to_pose_truncated'',
       instantiate = (\<lambda>template tol. template @ (if tol = 1 / 2 then ''_0.5.xml'' else ''.xml'')),
       indeterminate_bool = False, indeterminate_double = 0\<rparr>"

text \<open>A node that has not resolved any goal yet, and one whose last goal is (3, 4).\<close>

definition node_fresh :: "bool \<Rightarrow> NavigateTo" where
  "node_fresh finish = \<lparr>m_status = IDLE, m_will_finish = finish, m_goal_updated = False,
       m_goal = \<lparr>goal_pose = default_PoseStamped, behavior_tree = []\<rparr>, new_goals = []\<rparr>"

definition node_example :: "bool \<Rightarrow> NavigateTo" where
  "node_example finish = \<lparr>m_status = IDLE, m_will_finish = finish, m_goal_updated = False,
       m_goal = \<lparr>goal_pose = pose_at 3 4, behavior_tree = []\<rparr>, new_goals = []\<rparr>"

definition ports_frame :: ports where
  "ports_frame = [''tf_frame'' \<mapsto> PString ''kitchen'', ''is_truncated'' \<mapsto> PBool False]"

definition ports_xy :: ports where
  "ports_xy = [''tf_frame'' \<mapsto> PString [], ''x'' \<mapsto> PDouble 2, ''y'' \<mapsto> PDouble 3,
       ''is_truncated'' \<mapsto> PBool False]"

definition ports_truncated :: ports where
  "ports_truncated = [''tf_frame'' \<mapsto> PString [], ''x'' \<mapsto> PDouble 2, ''y'' \<mapsto> PDouble 3,
       ''is_truncated'' \<mapsto> PBool True, ''distance_tolerance'' \<mapsto> PDouble (1 / 2)]"

definition detection_at :: "string \<Rightarrow> real \<Rightarrow> real \<Rightarrow> real \<Rightarrow> Detection" where
  "detection_at name sc x y = \<lparr>class_name = name, score = sc,
       center3d = \<lparr>position = \<lparr>pos_x = x, pos_y = y, pos_z = 0\<rparr>, orientation = default_Quaternion\<rparr>\<rparr>"

text \<open>
  A perception listener that has seen the detections \<open>seen\<close> and returns those of the
  queried class whose score reaches the threshold.
\<close>

definition perception_example :: "Detection list \<Rightarrow> perception_env" where
  "perception_example seen = \<lparr>blackboard = [''person_0'' \<mapsto> detection_at ''person'' 1 0 0],
       get_by_features = (\<lambda>detection confidence.
          filter (\<lambda>d. class_name d = class_name detection \<and> confidence \<le> score d) seen)\<rparr>"

definition gate_ports :: "real \<Rightarrow> ports" where
  "gate_ports c = [''target'' \<mapsto> PString ''person_0'', ''what'' \<mapsto> PString ''person'',
       ''entity_to_identify'' \<mapsto> PString ''person'', ''confidence'' \<mapsto> PDouble c]"

definition gate_example :: IsInFront where
  "gate_example = IsInFront_ctor (gate_ports (9 / 10)) 0"

section \<open>Properties of NavigateTo\<close>

lemmas nav_defs = on_tick_def Let_def setStatus_def resolve_pose_def generate_xml_file_def
  getInput_string_def getInput_bool_def getInput_double_def
  default_PoseStamped_def default_Pose_def default_Point_def default_Quaternion_def
  default_Transform_def

lemmas nav_examples = env_example_def node_fresh_def node_example_def pose_at_def
  ports_frame_def ports_xy_def ports_truncated_def

subsection \<open>Frame lookup failure\<close>

lemma on_tick_lookup_failure:
  assumes "getInput_string ps ''tf_frame'' [] \<noteq> []"
    and "lookupTransform env ''map'' (getInput_string ps ''tf_frame'' []) = None"
  shows "goal_pose (m_goal (on_tick env ps s)) = \<lparr>frame_id = ''map'', pose = default_Pose\<rparr>"
    and "m_status (on_tick env ps s) = RUNNING"
  using assms
  by (simp_all add: on_tick_def Let_def setStatus_def resolve_pose_def default_PoseStamped_def
      default_Pose_def default_Transform_def default_Point_def default_Quaternion_def)

text \<open>
  C1. The claim: when \<open>tf_frame\<close> is non-empty and the lookup fails, the tick is reported
  as RUNNING and the stored goal is left untouched. The code sets RUNNING but does not
  return from the \<^verbatim>\<open>catch\<close> block: with the frame \<open>kitchen\<close> unknown and the stored goal
  at (3, 4), the tick overwrites the stored pose with the default transform, the map
  origin with the identity rotation.
\<close>

theorem on_tick_lookup_failure_overwrites_goal:
  "getInput_string ports_frame ''tf_frame'' [] = ''kitchen'' \<and>
   lookupTransform (env_example True) ''map'' ''kitchen'' = None \<and>
   goal_pose (m_goal (node_example True)) = pose_at 3 4 \<and>
   m_status (on_tick (env_example True) ports_frame (node_example True)) = RUNNING \<and>
   goal_pose (m_goal (on_tick (env_example True) ports_frame (node_example True))) = pose_at 0 0"
  by (simp add: nav_defs nav_examples)

subsection \<open>Terminal outcomes\<close>

lemma on_tick_ignores_goal_updated:
  "on_tick env ps (s\<lparr>m_goal_updated := b\<rparr>) = (on_tick env ps s)\<lparr>m_goal_updated := b\<rparr>"
  by (simp add: on_tick_def Let_def setStatus_def resolve_pose_def split: prod.splits option.splits)

lemma on_tick_new_goals: "new_goals (on_tick env ps s) = new_goals s"
  by (simp add: on_tick_def Let_def setStatus_def resolve_pose_def split: prod.splits option.splits)

lemma continuation_shared:
  assumes "\<not> m_will_finish s"
  shows "on_aborted env ps s = (RUNNING, on_new_goal_received (on_tick env ps s))"
    and "on_cancelled env ps s = (RUNNING, on_new_goal_received (on_tick env ps s))"
    and "on_success env ps s =
           (RUNNING, (on_new_goal_received (on_tick env ps s))\<lparr>m_goal_updated := True\<rparr>)"
  using assms
  by (simp_all add: on_aborted_def on_cancelled_def on_success_def Let_def
      on_tick_ignores_goal_updated on_new_goal_received_def)

text \<open>
  C2. With the finish flag set, Succeeded gives SUCCESS, Aborted gives FAILURE and
  Cancelled gives SUCCESS, and the node is left as it was. With the flag clear, each of
  the three outcomes gives RUNNING, the stored goal is the one \<open>on_tick\<close> resolves, and
  that goal is announced as a new goal.
\<close>

theorem outcome_verdicts:
  "(m_will_finish s \<longrightarrow>
      on_outcome Succeeded env ps s = (SUCCESS, s) \<and>
      on_outcome Aborted env ps s = (FAILURE, s) \<and>
      on_outcome Cancelled env ps s = (SUCCESS, s)) \<and>
   (\<not> m_will_finish s \<longrightarrow>
      (\<forall>out. fst (on_outcome out env ps s) = RUNNING \<and>
             m_goal (snd (on_outcome out env ps s)) = m_goal (on_tick env ps s) \<and>
             new_goals (snd (on_outcome out env ps s)) = new_goals s @ [m_goal (on_tick env ps s)]))"
proof (cases "m_will_finish s")
  case True
  then show ?thesis
    by (simp add: on_success_def on_aborted_def on_cancelled_def)
next
  case False
  have "fst (on_outcome out env ps s) = RUNNING \<and>
        m_goal (snd (on_outcome out env ps s)) = m_goal (on_tick env ps s) \<and>
        new_goals (snd (on_outcome out env ps s)) = new_goals s @ [m_goal (on_tick env ps s)]" for out
    by (cases out)
      (simp_all add: continuation_shared [OF False] on_new_goal_received_def on_tick_new_goals)
  with False show ?thesis by simp
qed

theorem outcome_verdicts_witness:
  "m_will_finish (node_example True) \<and> \<not> m_will_finish (node_example False) \<and>
   on_outcome Succeeded (env_example True) ports_xy (node_example True) = (SUCCESS, node_example True) \<and>
   on_outcome Aborted (env_example True) ports_xy (node_example True) = (FAILURE, node_example True) \<and>
   on_outcome Cancelled (env_example True) ports_xy (node_example True) = (SUCCESS, node_example True) \<and>
   (\<forall>out. fst (on_outcome out (env_example True) ports_xy (node_example False)) = RUNNING \<and>
      goal_pose (m_goal (snd (on_outcome out (env_example True) ports_xy (node_example False)))) =
        pose_at 2 3)"
proof -
  have t: "m_will_finish (node_example True)" and f: "\<not> m_will_finish (node_example False)"
    by (simp_all add: node_example_def)
  have g: "goal_pose (m_goal (on_tick (env_example True) ports_xy (node_example False))) = pose_at 2 3"
    by (simp add: nav_defs nav_examples)
  show ?thesis
    using t f g outcome_verdicts [of "node_example True" "env_example True" ports_xy]
      outcome_verdicts [of "node_example False" "env_example True" ports_xy]
    by simp
qed

text \<open>
  C3. The claim: with the finish flag clear, the continuation after Aborted and after
  Cancelled is the one after Succeeded, which marks the goal-updated flag. Only
  \<^verbatim>\<open>on_success\<close> assigns \<^verbatim>\<open>goal_updated_\<close>: from a node whose flag is clear, Succeeded
  leaves it set, Aborted and Cancelled leave it clear.
\<close>

theorem continuation_differs_in_goal_updated:
  "\<not> m_will_finish (node_example False) \<and>
   \<not> m_goal_updated (node_example False) \<and>
   m_goal_updated (snd (on_success (env_example True) ports_xy (node_example False))) \<and>
   \<not> m_goal_updated (snd (on_aborted (env_example True) ports_xy (node_example False))) \<and>
   \<not> m_goal_updated (snd (on_cancelled (env_example True) ports_xy (node_example False)))"
  by (simp add: on_success_def on_aborted_def on_cancelled_def on_new_goal_received_def
      on_tick_def Let_def setStatus_def resolve_pose_def node_example_def env_example_def
      split: prod.splits)

subsection \<open>Service readiness\<close>

lemma on_tick_goal_ignores_readiness:
  "m_goal (on_tick (env\<lparr>wait_for_service := b\<rparr>) ps s) = m_goal (on_tick env ps s)"
  by (simp add: on_tick_def Let_def setStatus_def resolve_pose_def generate_xml_file_def
      split: prod.splits option.splits)

lemma on_tick_not_ready:
  "\<not> wait_for_service env \<Longrightarrow> m_status (on_tick env ps s) = RUNNING"
  by (simp add: on_tick_def Let_def setStatus_def resolve_pose_def split: prod.splits option.splits)

text \<open>
  C7. The claim: the readiness check runs on every tick, an unready service makes the
  tick RUNNING, and the goal is not advanced in that cycle. The check does run whatever
  \<open>is_truncated\<close> is and does set RUNNING, but the tick goes on: with the service down
  and the stored goal at (3, 4), the tick stores the new goal (2, 3), the same goal it
  stores when the service is up.
\<close>

theorem on_tick_not_ready_still_writes_goal:
  "\<not> wait_for_service (env_example False) \<and>
   goal_pose (m_goal (node_example True)) = pose_at 3 4 \<and>
   m_status (on_tick (env_example False) ports_xy (node_example True)) = RUNNING \<and>
   goal_pose (m_goal (on_tick (env_example False) ports_xy (node_example True))) = pose_at 2 3 \<and>
   m_goal (on_tick (env_example False) ports_xy (node_example True)) =
     m_goal (on_tick (env_example True) ports_xy (node_example True))"
  by (simp add: nav_defs nav_examples)

subsection \<open>What a tick leaves in each member\<close>

lemma getInput_bool_idem:
  "getInput_bool ps key (getInput_bool ps key dest) = getInput_bool ps key dest"
  by (simp add: getInput_bool_def split: option.splits port_value.splits)

lemma on_tick_members:
  "m_will_finish (on_tick env ps s) = getInput_bool ps ''will_finish'' (m_will_finish s)"
  "m_goal_updated (on_tick env ps s) = m_goal_updated s"
  by (simp_all add: on_tick_def Let_def setStatus_def resolve_pose_def
      split: prod.splits option.splits)

lemma on_tick_status:
  "m_status (on_tick env ps s) =
     (if (getInput_string ps ''tf_frame'' [] \<noteq> [] \<and>
          lookupTransform env ''map'' (getInput_string ps ''tf_frame'' []) = None) \<or>
         \<not> wait_for_service env
      then RUNNING else m_status s)"
  by (simp add: on_tick_def Let_def setStatus_def resolve_pose_def
      split: prod.splits option.splits)

lemma on_tick_goal_pose_any:
  "goal_pose (m_goal (on_tick env ps s)) = goal_pose (m_goal (on_tick env ps s'))"
  by (simp add: on_tick_def Let_def setStatus_def resolve_pose_def
      split: prod.splits option.splits)

lemma on_tick_behavior_tree:
  "behavior_tree (m_goal (on_tick env ps s)) =
     (if getInput_bool ps ''is_truncated'' (indeterminate_bool env)
      then generate_xml_file env (nav_to_pose_truncated_xml env)
             (getInput_double ps ''distance_tolerance'' (indeterminate_double env))
      else behavior_tree (m_goal s))"
  by (simp add: on_tick_def Let_def setStatus_def resolve_pose_def
      split: prod.splits option.splits)

subsection \<open>Goals from coordinates\<close>

text \<open>
  What a tick with empty \<open>tf_frame\<close> does store: the position read from the ports \<open>x\<close>
  and \<open>y\<close> (0 where a port is absent), the identity orientation and the frame \<open>map\<close>;
  the status is touched only by the readiness check.
\<close>

lemma coordinates_pose:
  assumes "getInput_string ps ''tf_frame'' [] = []"
  shows "goal_pose (m_goal (on_tick env ps s)) =
           \<lparr>frame_id = ''map'',
            pose = \<lparr>position = \<lparr>pos_x = getInput_double ps ''x'' 0,
                                pos_y = getInput_double ps ''y'' 0, pos_z = 0\<rparr>,
                    orientation = \<lparr>quat_x = 0, quat_y = 0, quat_z = 0, quat_w = 1\<rparr>\<rparr>\<rparr>"
    and "m_status (on_tick env ps s) = (if wait_for_service env then m_status s else RUNNING)"
  using assms
  by (simp_all add: on_tick_status)
    (simp add: on_tick_def Let_def setStatus_def resolve_pose_def
      default_PoseStamped_def default_Pose_def default_Point_def)

text \<open>
  C8. The claim: with empty \<open>tf_frame\<close> the resolved goal has position (x, y), the
  identity orientation, and, when \<open>is_truncated\<close> is false, no truncation reference.
  The pose is as claimed, but \<^verbatim>\<open>goal_.behavior_tree\<close> is assigned only under
  \<^verbatim>\<open>if (is_truncated)\<close> and never cleared: a fresh node that resolves a truncated goal
  and then, with \<open>is_truncated\<close> false, an untruncated one still carries the first
  tick's truncation reference; so does the goal that \<^verbatim>\<open>on_success\<close> resolves and
  announces after the truncated one has succeeded.
\<close>

theorem stale_truncation_reference:
  "getInput_string ports_xy ''tf_frame'' [] = [] \<and>
   ports_xy ''is_truncated'' = Some (PBool False) \<and>
   behavior_tree (m_goal (node_fresh False)) = [] \<and>
   behavior_tree (m_goal (on_tick (env_example True) ports_xy
      (on_tick (env_example True) ports_truncated (node_fresh False)))) =
     ''nav_to_pose_truncated_0.5.xml'' \<and>
   behavior_tree (m_goal (snd (on_success (env_example True) ports_xy
      (on_tick (env_example True) ports_truncated (node_fresh False))))) =
     ''nav_to_pose_truncated_0.5.xml''"
  by (simp add: nav_defs nav_examples on_success_def on_new_goal_received_def)

subsection \<open>Resolving twice\<close>

text \<open>
  Running \<open>on_tick\<close> again at once, with the same ports and the same answers, changes
  nothing, and the stored pose does not depend on the node before the tick.
\<close>

lemma on_tick_twice:
  "on_tick env ps (on_tick env ps s) = on_tick env ps s"
proof (rule NavigateTo.equality)
  show "m_goal (on_tick env ps (on_tick env ps s)) = m_goal (on_tick env ps s)"
  proof (rule NavigateToPose_Goal.equality)
    show "goal_pose (m_goal (on_tick env ps (on_tick env ps s))) =
          goal_pose (m_goal (on_tick env ps s))"
      by (rule on_tick_goal_pose_any)
  qed (simp_all add: on_tick_behavior_tree)
qed (simp_all add: on_tick_members on_tick_status on_tick_new_goals getInput_bool_idem)

text \<open>
  C9. The claim: resolving again with an identical context and identical answers of the
  collaborators yields a bit-identical goal. The goal of a tick whose \<open>is_truncated\<close>
  is false keeps the reference of the tick before, so it is not a function of the
  context and the answers: the same node, with the same collaborators throughout,
  resolves the context \<open>ports_xy\<close>, then a truncated goal, then \<open>ports_xy\<close> again, and
  the two goals for \<open>ports_xy\<close> differ in their truncation reference.
\<close>

theorem same_context_different_goal:
  "m_goal (on_tick (env_example True) ports_xy (node_fresh False)) =
     \<lparr>goal_pose = pose_at 2 3, behavior_tree = []\<rparr> \<and>
   m_goal (on_tick (env_example True) ports_xy
      (on_tick (env_example True) ports_truncated
         (on_tick (env_example True) ports_xy (node_fresh False)))) =
     \<lparr>goal_pose = pose_at 2 3, behavior_tree = ''nav_to_pose_truncated_0.5.xml''\<rparr>"
  by (simp add: nav_defs nav_examples)

section \<open>Properties of IsInFront\<close>

lemmas gate_examples = perception_example_def gate_example_def gate_ports_def detection_at_def
  IsInFront_ctor_def Let_def getInput_string_def getInput_double_def

subsection \<open>Bearings of the example detections\<close>

lemma yaw_values:
  "yaw_degrees (detection_at n s 1 0) = 0"
  "yaw_degrees (detection_at n s 0 1) = 90"
  "yaw_degrees (detection_at n s 0 (- 1)) = - 90"
  by (simp_all add: yaw_degrees_def detection_at_def atan2_def)

lemma yaw_boundary:
  "yaw_degrees (detection_at n s (cos (pi / 36)) (sin (pi / 36))) = 5"
proof -
  have c: "0 < cos (pi / 36)"
    by (rule cos_gt_zero_pi) (use pi_gt_zero in simp_all)
  have "arctan (tan (pi / 36)) = pi / 36"
    by (rule arctan_tan) (use pi_gt_zero in simp_all)
  then have "arctan (sin (pi / 36) / cos (pi / 36)) = pi / 36"
    by (simp only: tan_def)
  with c have a: "atan2 (sin (pi / 36)) (cos (pi / 36)) = pi / 36"
    by (simp only: atan2_def if_True)
  show ?thesis
    by (simp add: yaw_degrees_def detection_at_def a)
qed

subsection \<open>The port the threshold comes from\<close>

lemma getInput_agree:
  assumes "\<forall>k. k \<noteq> ''confidence'' \<longrightarrow> ps1 k = ps2 k"
  shows "getInput_string ps1 ''what'' d = getInput_string ps2 ''what'' d"
    and "getInput_string ps1 ''target'' d = getInput_string ps2 ''target'' d"
    and "getInput_string ps1 ''entity_to_identify'' d = getInput_string ps2 ''entity_to_identify'' d"
    and "getInput_double ps1 ''conficende'' c = getInput_double ps2 ''conficende'' c"
  using assms by (simp_all add: getInput_string_def getInput_double_def)

text \<open>
  C4. The threshold is what the port \<open>conficende\<close> holds (or the member's initial value
  when that port is absent). Two port maps that agree on every key but \<open>confidence\<close>
  construct the same node, and its tick gives the same verdict and the same outputs.
\<close>

theorem confidence_port_ignored:
  assumes "\<forall>k. k \<noteq> ''confidence'' \<longrightarrow> ps1 k = ps2 k"
  shows "m_confidence (IsInFront_ctor ps1 confidence0) =
           getInput_double ps1 ''conficende'' confidence0 \<and>
         IsInFront_ctor ps1 confidence0 = IsInFront_ctor ps2 confidence0 \<and>
         tick env (IsInFront_ctor ps1 confidence0) = tick env (IsInFront_ctor ps2 confidence0)"
proof -
  have "IsInFront_ctor ps1 confidence0 = IsInFront_ctor ps2 confidence0"
    by (simp add: IsInFront_ctor_def getInput_agree [OF assms])
  moreover have "m_confidence (IsInFront_ctor ps1 confidence0) =
      getInput_double ps1 ''conficende'' confidence0"
    by (simp add: IsInFront_ctor_def Let_def)
  ultimately show ?thesis by simp
qed

theorem confidence_port_ignored_witness:
  "gate_ports (9 / 10) ''confidence'' \<noteq> gate_ports (1 / 10) ''confidence'' \<and>
   m_confidence (IsInFront_ctor (gate_ports (9 / 10)) 0) = 0 \<and>
   tick (perception_example [detection_at ''person'' (1 / 2) 1 0])
        (IsInFront_ctor (gate_ports (9 / 10)) 0) =
   tick (perception_example [detection_at ''person'' (1 / 2) 1 0])
        (IsInFront_ctor (gate_ports (1 / 10)) 0)"
proof -
  have h: "\<forall>k. k \<noteq> ''confidence'' \<longrightarrow> gate_ports (9 / 10) k = gate_ports (1 / 10) k"
    by (simp add: gate_ports_def)
  have d: "gate_ports (9 / 10) ''confidence'' \<noteq> gate_ports (1 / 10) ''confidence''"
    by (simp add: gate_ports_def)
  have c: "getInput_double (gate_ports (9 / 10)) ''conficende'' 0 = 0"
    by (simp add: getInput_double_def gate_ports_def)
  show ?thesis
    using h d c
      confidence_port_ignored [OF h, of 0 "perception_example [detection_at ''person'' (1 / 2) 1 0]"]
    by auto
qed

text \<open>
  The port \<open>conficende\<close> does decide: with one person of score 0.5 straight ahead, a
  threshold of 0.1 under that key lets the gate pass and 0.9 makes it fail.
\<close>

lemma conficende_decides:
  "tick (perception_example [detection_at ''person'' (1 / 2) 1 0])
      (IsInFront_ctor ((gate_ports 0)(''conficende'' \<mapsto> PDouble (1 / 10))) 0) =
     (SUCCESS, [PublishTF (detection_at ''person'' (1 / 2) 1 0) ''person'', SetOutput ''direction'' 0])"
  "tick (perception_example [detection_at ''person'' (1 / 2) 1 0])
      (IsInFront_ctor ((gate_ports 0)(''conficende'' \<mapsto> PDouble (9 / 10))) 0) =
     (FAILURE, [SetOutput ''direction'' (- 1)])"
  by (simp_all add: tick_def IsInFront_ctor_def Let_def gate_ports_def perception_example_def
      getInput_string_def getInput_double_def yaw_values, simp_all add: detection_at_def)

subsection \<open>The bearing\<close>

lemma seen_one:
  "get_by_features (perception_example [detection_at ''person'' 1 x y])
     (case blackboard (perception_example [detection_at ''person'' 1 x y]) (m_target gate_example) of
        Some d \<Rightarrow> d | None \<Rightarrow> default_Detection)
     (m_confidence gate_example) = [detection_at ''person'' 1 x y]"
  by (simp add: gate_examples)

text \<open>
  C5. When the perception listener returns a non-empty list, with \<open>b\<close> the bearing of
  its head in degrees: if \<open>\<bar>b\<bar> > 5\<close> the tick is FAILURE and writes direction \<open>1\<close> for
  \<open>b > 0\<close> and \<open>- 1\<close> for \<open>b < 0\<close>; if \<open>\<bar>b\<bar> \<le> 5\<close>, five degrees included, the tick is
  SUCCESS and writes direction \<open>0\<close> after publishing the detection.
\<close>

theorem bearing_gate_verdict:
  assumes "get_by_features env
             (case blackboard env (m_target n) of Some d \<Rightarrow> d | None \<Rightarrow> default_Detection)
             (m_confidence n) = d # ds"
    and "b = yaw_degrees d"
  shows "(\<bar>b\<bar> > 5 \<and> b > 0 \<longrightarrow> tick env n = (FAILURE, [SetOutput ''direction'' 1])) \<and>
         (\<bar>b\<bar> > 5 \<and> b < 0 \<longrightarrow> tick env n = (FAILURE, [SetOutput ''direction'' (- 1)])) \<and>
         (\<bar>b\<bar> \<le> 5 \<longrightarrow>
            tick env n = (SUCCESS, [PublishTF d (m_entity n), SetOutput ''direction'' 0]))"
  using assms by (auto simp: tick_def Let_def)

theorem bearing_gate_verdict_witness:
  "tick (perception_example [detection_at ''person'' 1 0 1]) gate_example =
     (FAILURE, [SetOutput ''direction'' 1]) \<and>
   tick (perception_example [detection_at ''person'' 1 0 (- 1)]) gate_example =
     (FAILURE, [SetOutput ''direction'' (- 1)]) \<and>
   tick (perception_example [detection_at ''person'' 1 1 0]) gate_example =
     (SUCCESS, [PublishTF (detection_at ''person'' 1 1 0) (m_entity gate_example),
                SetOutput ''direction'' 0]) \<and>
   tick (perception_example [detection_at ''person'' 1 (cos (pi / 36)) (sin (pi / 36))]) gate_example =
     (SUCCESS, [PublishTF (detection_at ''person'' 1 (cos (pi / 36)) (sin (pi / 36)))
                  (m_entity gate_example),
                SetOutput ''direction'' 0])"
  using bearing_gate_verdict [OF seen_one [of 0 1] refl]
    bearing_gate_verdict [OF seen_one [of 0 "- 1"] refl]
    bearing_gate_verdict [OF seen_one [of 1 0] refl]
    bearing_gate_verdict [OF seen_one [of "cos (pi / 36)" "sin (pi / 36)"] refl]
  by (simp add: yaw_values yaw_boundary)

subsection \<open>No detection\<close>

text \<open>
  C6. Whatever the threshold, when the perception listener returns the empty list the
  tick is FAILURE and writes direction \<open>- 1\<close>.
\<close>

theorem no_detection_turns_right:
  assumes "get_by_features env
             (case blackboard env (m_target n) of Some d \<Rightarrow> d | None \<Rightarrow> default_Detection)
             (m_confidence n) = []"
  shows "tick env n = (FAILURE, [SetOutput ''direction'' (- 1)])"
  using assms by (simp add: tick_def Let_def)

theorem no_detection_turns_right_witness:
  "get_by_features (perception_example [])
     (case blackboard (perception_example []) (m_target gate_example) of
        Some d \<Rightarrow> d | None \<Rightarrow> default_Detection)
     (m_confidence gate_example) = [] \<and>
   tick (perception_example []) gate_example = (FAILURE, [SetOutput ''direction'' (- 1)])"
proof -
  have h: "get_by_features (perception_example [])
     (case blackboard (perception_example []) (m_target gate_example) of
        Some d \<Rightarrow> d | None \<Rightarrow> default_Detection)
     (m_confidence gate_example) = []"
    by (simp add: perception_example_def)
  show ?thesis
    using h no_detection_turns_right [OF h] by simp
qed

subsection \<open>The direction output\<close>

text \<open>
  C10. Every tick writes the output \<open>direction\<close> exactly once, with \<open>- 1\<close>, \<open>0\<close> or \<open>1\<close>;
  the tick is SUCCESS exactly when the value written is \<open>0\<close> and FAILURE exactly when
  it is not.
\<close>

theorem direction_written_once:
  "\<exists>d. direction_writes (snd (tick env n)) = [d] \<and> (d = - 1 \<or> d = 0 \<or> d = 1) \<and>
       (fst (tick env n) = SUCCESS) = (d = 0) \<and> (fst (tick env n) = FAILURE) = (d \<noteq> 0)"
  by (simp add: tick_def Let_def split: list.splits)

end
